theory Spec2Isabelle
  imports Main
begin

section \<open>DOM helpers shared by the components\<close>

text \<open>
  A \<^verbatim>\<open>classList\<close> is a token list without duplicates: \<^verbatim>\<open>add\<close> appends a token that is
  not there yet, \<^verbatim>\<open>remove\<close> deletes it, \<^verbatim>\<open>toggle(token, force)\<close> adds when
  \<^verbatim>\<open>force\<close> is true and removes otherwise, \<^verbatim>\<open>contains\<close> is membership.
\<close>

definition classList_add :: "string \<Rightarrow> string list \<Rightarrow> string list" where
  "classList_add c cs = (if c \<in> set cs then cs else cs @ [c])"

definition classList_remove :: "string \<Rightarrow> string list \<Rightarrow> string list" where
  "classList_remove c cs = removeAll c cs"

definition classList_toggle :: "string \<Rightarrow> bool \<Rightarrow> string list \<Rightarrow> string list" where
  "classList_toggle c force cs = (if force then classList_add c cs else classList_remove c cs)"

definition classList_contains :: "string \<Rightarrow> string list \<Rightarrow> bool" where
  "classList_contains c cs = (c \<in> set cs)"

section \<open>ThemeManager (src/unnamed/part_005)\<close>

text \<open>
  The state is the object's two mutable fields (\<^verbatim>\<open>currentTheme\<close>,
  \<^verbatim>\<open>transitionTimeout\<close>) together with the parts of the page the methods read and
  write: \<^verbatim>\<open>localStorage\<close> (whose \<^verbatim>\<open>getItem\<close> and \<^verbatim>\<open>setItem\<close> may throw, which the
  source catches), the \<^verbatim>\<open>data-theme\<close> attribute of the document root, the class list of
  the body, the \<^verbatim>\<open>.theme-toggle\<close> button when the page has one, the pending timers,
  the media query \<^verbatim>\<open>(prefers-color-scheme: light)\<close>, the clock read by \<^verbatim>\<open>Date.now()\<close>,
  the console, and the events dispatched on \<^verbatim>\<open>window\<close>.  A loaded page always has a
  document root and a body, so the source's guards \<^verbatim>\<open>document && document.body\<close> and
  \<^verbatim>\<open>document && document.documentElement\<close> are true and are not modelled.
\<close>

datatype console_warning =
    InvalidThemeName string
  | ReadThemeFailed
  | SaveThemeFailed
  | ToggleButtonNotFound

text \<open>The two icons of the toggle button (emoji in the source) are kept symbolic.\<close>

datatype markup = SunIcon | MoonIcon | OtherMarkup string

record toggle_button =
  innerHTML :: markup
  title :: string
  ariaLabel :: string
  buttonClasses :: "string list"

text \<open>The \<^verbatim>\<open>detail\<close> of a \<^verbatim>\<open>themeChanged\<close> event.\<close>

record theme_changed =
  theme :: string
  previousTheme :: string
  timestamp :: nat

text \<open>
  What a listener of \<^verbatim>\<open>themeChanged\<close> can read from the page while it runs:
  \<^verbatim>\<open>window.dispatchEvent\<close> calls the listeners synchronously, so they see the state as it
  is at the moment of the dispatch.
\<close>

record page_view =
  seenCurrentTheme :: string
  seenDataTheme :: "string option"
  seenStored :: "string option"
  seenBodyClasses :: "string list"
  seenToggle :: "toggle_button option"

record tm_state =
  currentTheme :: string
  transitionTimeout :: "nat option"
  stored :: "string \<rightharpoonup> string"
  getItemThrows :: bool
  setItemThrows :: bool
  dataTheme :: "string option"
  bodyClasses :: "string list"
  themeToggle :: "toggle_button option"
  timers :: "nat list"
  nextTimer :: nat
  hasMatchMedia :: bool
  prefersLight :: bool
  clock :: nat
  warnings :: "console_warning list"
  dispatched :: "(theme_changed \<times> page_view) list"
  clickListener :: bool
  systemListener :: bool

definition storageKey :: string where
  "storageKey = ''portfolio-theme''"

definition supportedThemes :: "string list" where
  "supportedThemes = [''dark'', ''light'']"

definition transitionDuration :: nat where
  "transitionDuration = 300"

definition observe :: "tm_state \<Rightarrow> page_view" where
  "observe st =
     \<lparr>seenCurrentTheme = currentTheme st,
      seenDataTheme = dataTheme st,
      seenStored = stored st storageKey,
      seenBodyClasses = bodyClasses st,
      seenToggle = themeToggle st\<rparr>"

definition getCurrentTheme :: "tm_state \<Rightarrow> string" where
  "getCurrentTheme st = currentTheme st"

text \<open>
  \<^verbatim>\<open>getSavedTheme\<close>: the stored value, or \<^verbatim>\<open>null\<close> (\<open>None\<close>) when the key is absent
  or when \<^verbatim>\<open>getItem\<close> throws (the failure is logged).
\<close>

definition getSavedTheme :: "tm_state \<Rightarrow> string option \<times> tm_state" where
  "getSavedTheme st =
     (if getItemThrows st
      then (None, st\<lparr>warnings := warnings st @ [ReadThemeFailed]\<rparr>)
      else (stored st storageKey, st))"

definition persistTheme :: "string \<Rightarrow> tm_state \<Rightarrow> tm_state" where
  "persistTheme themeName st =
     (if setItemThrows st
      then st\<lparr>warnings := warnings st @ [SaveThemeFailed]\<rparr>
      else st\<lparr>stored := (stored st)(storageKey \<mapsto> themeName)\<rparr>)"

definition detectSystemTheme :: "tm_state \<Rightarrow> string" where
  "detectSystemTheme st =
     (if hasMatchMedia st \<and> prefersLight st then ''light'' else ''dark'')"

definition applyThemeImmediate :: "string \<Rightarrow> tm_state \<Rightarrow> tm_state" where
  "applyThemeImmediate themeName st = st\<lparr>dataTheme := Some themeName\<rparr>"

text \<open>
  \<^verbatim>\<open>applyThemeWithTransition\<close>: a pending timer is cleared (a timer handle is a positive
  number, \<^verbatim>\<open>0\<close> and \<^verbatim>\<open>null\<close> are falsy), the body gets the transition class, the root
  gets the attribute, and a new timer is started whose handle is remembered.
\<close>

definition clearTimeout :: "nat \<Rightarrow> tm_state \<Rightarrow> tm_state" where
  "clearTimeout h st = st\<lparr>timers := removeAll h (timers st)\<rparr>"

definition applyThemeWithTransition :: "string \<Rightarrow> tm_state \<Rightarrow> tm_state" where
  "applyThemeWithTransition themeName st =
     (let st1 = (case transitionTimeout st of
                   None \<Rightarrow> st
                 | Some h \<Rightarrow> if h = 0 then st else clearTimeout h st);
          st2 = st1\<lparr>bodyClasses := classList_add ''theme-transitioning'' (bodyClasses st1)\<rparr>;
          st3 = st2\<lparr>dataTheme := Some themeName\<rparr>
      in st3\<lparr>timers := timers st3 @ [nextTimer st3],
              transitionTimeout := Some (nextTimer st3),
              nextTimer := Suc (nextTimer st3)\<rparr>)"

text \<open>The callback of the transition timer, run when timer \<open>h\<close> fires.\<close>

definition transitionTimerFired :: "nat \<Rightarrow> tm_state \<Rightarrow> tm_state" where
  "transitionTimerFired h st =
     (if h \<in> set (timers st)
      then st\<lparr>timers := removeAll h (timers st),
              bodyClasses := classList_remove ''theme-transitioning'' (bodyClasses st),
              transitionTimeout := None\<rparr>
      else st)"

definition updateButton :: "string \<Rightarrow> toggle_button \<Rightarrow> toggle_button" where
  "updateButton cur b =
     (let isDark = (cur = ''dark'');
          icon = (if isDark then SunIcon else MoonIcon);
          label = (if isDark then ''Switch to light mode'' else ''Switch to dark mode'')
      in b\<lparr>innerHTML := icon,
           title := label,
           ariaLabel := label,
           buttonClasses :=
             classList_toggle ''theme-toggle--light'' (\<not> isDark)
               (classList_toggle ''theme-toggle--dark'' isDark (buttonClasses b))\<rparr>)"

text \<open>
  \<^verbatim>\<open>updateToggleButton(button)\<close> on the button found by
  \<^verbatim>\<open>document.querySelector('.theme-toggle')\<close>; nothing happens without a button.
\<close>

definition updateToggleButton :: "tm_state \<Rightarrow> tm_state" where
  "updateToggleButton st =
     (case themeToggle st of
        None \<Rightarrow> st
      | Some b \<Rightarrow> st\<lparr>themeToggle := Some (updateButton (currentTheme st) b)\<rparr>)"

definition dispatchThemeChangeEvent :: "string \<Rightarrow> string \<Rightarrow> tm_state \<Rightarrow> tm_state" where
  "dispatchThemeChangeEvent newTheme prevTheme st =
     st\<lparr>dispatched := dispatched st @
        [(\<lparr>theme = newTheme, previousTheme = prevTheme, timestamp = clock st\<rparr>, observe st)]\<rparr>"

definition setTheme :: "string \<Rightarrow> tm_state \<Rightarrow> tm_state" where
  "setTheme themeName st =
     (if themeName \<notin> set supportedThemes
      then st\<lparr>warnings := warnings st @ [InvalidThemeName themeName]\<rparr>
      else
        (let prevTheme = currentTheme st;
             st1 = st\<lparr>currentTheme := themeName\<rparr>;
             st2 = applyThemeWithTransition themeName st1;
             st3 = updateToggleButton st2;
             st4 = persistTheme themeName st3
         in dispatchThemeChangeEvent themeName prevTheme st4))"

definition toggleTheme :: "tm_state \<Rightarrow> tm_state" where
  "toggleTheme st =
     (let newTheme = (if currentTheme st = ''dark'' then ''light'' else ''dark'')
      in setTheme newTheme st)"

text \<open>
  \<^verbatim>\<open>initializeTheme\<close>.  \<^verbatim>\<open>!preferredTheme\<close> is true for \<^verbatim>\<open>null\<close> and for the empty
  string; only then is the system preference asked.
\<close>

definition initializeTheme :: "tm_state \<Rightarrow> tm_state" where
  "initializeTheme st =
     (let (savedTheme, st1) = getSavedTheme st;
          preferredTheme =
            (case savedTheme of
               None \<Rightarrow> detectSystemTheme st1
             | Some s \<Rightarrow> if s = [] then detectSystemTheme st1 else s);
          preferredTheme2 =
            (if preferredTheme \<notin> set supportedThemes then ''dark'' else preferredTheme);
          st2 = st1\<lparr>currentTheme := preferredTheme2\<rparr>;
          st3 = applyThemeImmediate preferredTheme2 st2
      in persistTheme preferredTheme2 st3)"

text \<open>
  The listener that \<^verbatim>\<open>setupSystemThemeListener\<close> registers on the media query;
  \<open>matches\<close> is \<^verbatim>\<open>e.matches\<close>.
\<close>

definition onSystemThemeChange :: "bool \<Rightarrow> tm_state \<Rightarrow> tm_state" where
  "onSystemThemeChange matches st =
     (let (savedTheme, st1) = getSavedTheme st;
          noSaved = (case savedTheme of None \<Rightarrow> True | Some s \<Rightarrow> s = [])
      in if noSaved
         then updateToggleButton (setTheme (if matches then ''light'' else ''dark'') st1)
         else st1)"

definition setupSystemThemeListener :: "tm_state \<Rightarrow> tm_state" where
  "setupSystemThemeListener st =
     (if hasMatchMedia st then st\<lparr>systemListener := True\<rparr> else st)"

text \<open>The click listener of the toggle button.\<close>

definition onToggleClick :: "tm_state \<Rightarrow> tm_state" where
  "onToggleClick st = updateToggleButton (toggleTheme st)"

definition setupThemeToggle :: "tm_state \<Rightarrow> tm_state" where
  "setupThemeToggle st =
     (case themeToggle st of
        None \<Rightarrow> st\<lparr>warnings := warnings st @ [ToggleButtonNotFound]\<rparr>
      | Some b \<Rightarrow>
          setupSystemThemeListener ((updateToggleButton st)\<lparr>clickListener := True\<rparr>))"

text \<open>\<^verbatim>\<open>cleanup()\<close> clears a pending transition timer.\<close>

definition cleanup :: "tm_state \<Rightarrow> tm_state" where
  "cleanup st =
     (case transitionTimeout st of
        None \<Rightarrow> st
      | Some h \<Rightarrow> if h = 0 then st else (clearTimeout h st)\<lparr>transitionTimeout := None\<rparr>)"

text \<open>
  \<^verbatim>\<open>new ThemeManager()\<close> on a page: the constructor sets the fields and runs
  \<^verbatim>\<open>init()\<close>, that is \<^verbatim>\<open>initializeTheme()\<close> and then \<^verbatim>\<open>setupThemeToggle()\<close>.
\<close>

definition newThemeManager :: "tm_state \<Rightarrow> tm_state" where
  "newThemeManager page =
     setupThemeToggle
       (initializeTheme (page\<lparr>currentTheme := ''dark'', transitionTimeout := None\<rparr>))"

text \<open>
  The browser reporting a change of the OS colour scheme: the media query's value
  changes and the registered listener, if any, runs.
\<close>

definition systemThemeChanged :: "bool \<Rightarrow> tm_state \<Rightarrow> tm_state" where
  "systemThemeChanged matches st =
     (let st1 = st\<lparr>prefersLight := matches\<rparr>
      in if systemListener st1 then onSystemThemeChange matches st1 else st1)"

text \<open>A page that was never visited: nothing stored, a toggle button, the OS prefers dark.\<close>

definition freshPage :: tm_state where
  "freshPage =
     \<lparr>currentTheme = [], transitionTimeout = None,
      stored = Map.empty, getItemThrows = False, setItemThrows = False,
      dataTheme = None, bodyClasses = [],
      themeToggle = Some \<lparr>innerHTML = OtherMarkup ''moon'', title = [],
                           ariaLabel = ''Toggle theme'', buttonClasses = [''theme-toggle'']\<rparr>,
      timers = [], nextTimer = 1, hasMatchMedia = True, prefersLight = False,
      clock = 0, warnings = [], dispatched = [],
      clickListener = False, systemListener = False\<rparr>"

text \<open>
  A page whose store holds a value that is no theme name, while the OS prefers light.
\<close>

definition bluePage :: tm_state where
  "bluePage = freshPage\<lparr>stored := [storageKey \<mapsto> ''blue''], prefersLight := True\<rparr>"

text \<open>A page whose store refuses every write (quota exhausted, storage disabled).\<close>

definition readOnlyPage :: tm_state where
  "readOnlyPage = freshPage\<lparr>setItemThrows := True\<rparr>"

text \<open>A page whose store holds the user's choice \<open>light\<close>.\<close>

definition lightPage :: tm_state where
  "lightPage = freshPage\<lparr>stored := [storageKey \<mapsto> ''light'']\<rparr>"


section \<open>NavigationManager (src/js/components/NavigationManager.js) and the timeline modal\<close>

text \<open>
  NavigationManager and SkillsTimeline (the class in src/js/components/ContactForm.js that
  opens the experience modal) write the same property of the page,
  \<^verbatim>\<open>document.body.style.overflow\<close>, so both live in one state.

  Navigation links are DOM elements, shared by reference: the state holds the class list of
  every link by address (\<open>linkClassList\<close>), and an entry of \<^verbatim>\<open>this.sections\<close> holds the
  address of its link (\<open>None\<close> for a missing link, which the source guards against).
  \<^verbatim>\<open>collectSections\<close> builds one entry per anchor of the navigation, so the links of the
  entries are pairwise different elements.
\<close>

record nav_section =
  secId :: string
  navLink :: "nat option"

text \<open>An experience of timeline.json, as far as the modal is concerned.\<close>

record experience =
  expId :: string
  expTitle :: string

datatype query_result = InvalidSelector | NoMatch | Element int

datatype js_error = SyntaxError | TypeError

record ui_state =
  mobileMenuOpen :: bool
  activeSection :: string
  sections :: "nav_section list"
  linkClassList :: "nat \<Rightarrow> string list"
  navAnchors :: "(nat \<times> string option) list"
  navLinksClasses :: "string list"
  hamburgerClasses :: "string list"
  ariaExpanded :: string
  bodyOverflow :: string
  experiences :: "experience list"
  modal :: "experience option"
  querySelector :: "string \<Rightarrow> query_result"
  headerHeight :: "int option"
  scrollRequests :: "int list"
  uncaught :: "js_error list"

definition openMobileMenu :: "ui_state \<Rightarrow> ui_state" where
  "openMobileMenu st =
     st\<lparr>mobileMenuOpen := True,
        navLinksClasses := classList_add ''mobile-menu-open'' (navLinksClasses st),
        hamburgerClasses := classList_add ''active'' (hamburgerClasses st),
        ariaExpanded := ''true'',
        bodyOverflow := ''hidden''\<rparr>"

definition closeMobileMenu :: "ui_state \<Rightarrow> ui_state" where
  "closeMobileMenu st =
     st\<lparr>mobileMenuOpen := False,
        navLinksClasses := classList_remove ''mobile-menu-open'' (navLinksClasses st),
        hamburgerClasses := classList_remove ''active'' (hamburgerClasses st),
        ariaExpanded := ''false'',
        bodyOverflow := []\<rparr>"

definition toggleMobileMenu :: "ui_state \<Rightarrow> ui_state" where
  "toggleMobileMenu st = (if mobileMenuOpen st then closeMobileMenu st else openMobileMenu st)"

text \<open>
  \<^verbatim>\<open>smoothScrollToSection(href)\<close>.  \<^verbatim>\<open>href\<close> is the anchor's attribute (\<open>None\<close> for
  \<^verbatim>\<open>null\<close>).  \<^verbatim>\<open>document.querySelector\<close> throws on an invalid selector, and
  \<^verbatim>\<open>this.nav.closest('header').offsetHeight\<close> throws when the navigation is not inside
  a header (\<open>headerHeight = None\<close>); an exception leaves the listener, and the state is as
  it was when it was thrown.
\<close>

definition smoothScrollToSection :: "string option \<Rightarrow> ui_state \<Rightarrow> ui_state" where
  "smoothScrollToSection href st =
     (case href of
        None \<Rightarrow> st
      | Some h \<Rightarrow>
          if h = [] \<or> hd h \<noteq> CHR ''#'' then st
          else (case querySelector st h of
                  InvalidSelector \<Rightarrow> st\<lparr>uncaught := uncaught st @ [SyntaxError]\<rparr>
                | NoMatch \<Rightarrow> st
                | Element offsetTop \<Rightarrow>
                    (case headerHeight st of
                       None \<Rightarrow> st\<lparr>uncaught := uncaught st @ [TypeError]\<rparr>
                     | Some hh \<Rightarrow>
                         st\<lparr>scrollRequests := scrollRequests st @ [offsetTop - hh - 20]\<rparr>)))"

text \<open>
  The listeners of \<^verbatim>\<open>setupEventListeners\<close>, each with what it reads from its event:
  whether the click target is inside the navigation, the key, the tag name and
  \<^verbatim>\<open>href\<close> of the click target, and \<^verbatim>\<open>window.innerWidth\<close>.
\<close>

definition onHamburgerClick :: "ui_state \<Rightarrow> ui_state" where
  "onHamburgerClick st = toggleMobileMenu st"

definition onDocumentClick :: "bool \<Rightarrow> ui_state \<Rightarrow> ui_state" where
  "onDocumentClick insideNav st =
     (if mobileMenuOpen st \<and> \<not> insideNav then closeMobileMenu st else st)"

definition onKeydown :: "string \<Rightarrow> ui_state \<Rightarrow> ui_state" where
  "onKeydown key st =
     (if key = ''Escape'' \<and> mobileMenuOpen st then closeMobileMenu st else st)"

definition onNavLinksClick :: "string \<Rightarrow> string option \<Rightarrow> ui_state \<Rightarrow> ui_state" where
  "onNavLinksClick tagName href st =
     (if tagName = ''A'' then smoothScrollToSection href (closeMobileMenu st) else st)"

definition onResize :: "nat \<Rightarrow> ui_state \<Rightarrow> ui_state" where
  "onResize innerWidth st =
     (if innerWidth > 768 \<and> mobileMenuOpen st then closeMobileMenu st else st)"

text \<open>
  \<^verbatim>\<open>updateActiveSection\<close>: the loop over \<^verbatim>\<open>this.sections\<close> adds the class to the link of
  an entry whose id is the requested one and removes it from the link of any other entry.
\<close>

fun markLinks :: "string \<Rightarrow> nav_section list \<Rightarrow> (nat \<Rightarrow> string list) \<Rightarrow> nat \<Rightarrow> string list" where
  "markLinks sectionId [] cl = cl"
| "markLinks sectionId (s # ss) cl =
     markLinks sectionId ss
       (case navLink s of
          None \<Rightarrow> cl
        | Some a \<Rightarrow>
            if secId s = sectionId
            then cl(a := classList_add ''active'' (cl a))
            else cl(a := classList_remove ''active'' (cl a)))"

definition updateActiveSection :: "string \<Rightarrow> ui_state \<Rightarrow> ui_state" where
  "updateActiveSection sectionId st =
     (if activeSection st = sectionId then st
      else st\<lparr>activeSection := sectionId,
              linkClassList := markLinks sectionId (sections st) (linkClassList st)\<rparr>)"

text \<open>
  The callback of the section observer: every intersecting entry updates the active
  section with the id of its target.
\<close>

fun sectionObserverCallback :: "(bool \<times> string) list \<Rightarrow> ui_state \<Rightarrow> ui_state" where
  "sectionObserverCallback [] st = st"
| "sectionObserverCallback ((isIntersecting, targetId) # entries) st =
     sectionObserverCallback entries
       (if isIntersecting then updateActiveSection targetId st else st)"

text \<open>SkillsTimeline: the modal of an experience locks the scroll of the body as well.\<close>

definition closeModal :: "ui_state \<Rightarrow> ui_state" where
  "closeModal st =
     (case modal st of
        None \<Rightarrow> st
      | Some m \<Rightarrow> st\<lparr>modal := None, bodyOverflow := []\<rparr>)"

definition createTimelineModal :: "experience \<Rightarrow> ui_state \<Rightarrow> ui_state" where
  "createTimelineModal e st = (closeModal st)\<lparr>modal := Some e, bodyOverflow := ''hidden''\<rparr>"

definition showTimelineDetails :: "string \<Rightarrow> ui_state \<Rightarrow> ui_state" where
  "showTimelineDetails experienceId st =
     (case find (\<lambda>e. expId e = experienceId) (experiences st) of
        None \<Rightarrow> st
      | Some e \<Rightarrow> createTimelineModal e st)"

text \<open>Vocabulary for the claims: the links the entries hold, and how many are marked.\<close>

fun linksOf :: "nav_section list \<Rightarrow> nat list" where
  "linksOf [] = []"
| "linksOf (s # ss) = (case navLink s of None \<Rightarrow> linksOf ss | Some a \<Rightarrow> a # linksOf ss)"

definition isActive :: "ui_state \<Rightarrow> nat \<Rightarrow> bool" where
  "isActive st a = classList_contains ''active'' (linkClassList st a)"

definition activeCount :: "ui_state \<Rightarrow> nat" where
  "activeCount st = length (filter (isActive st) (linksOf (sections st)))"

fun updateAll :: "string list \<Rightarrow> ui_state \<Rightarrow> ui_state" where
  "updateAll [] st = st"
| "updateAll (sectionId # later) st = updateAll later (updateActiveSection sectionId st)"

text \<open>
  \<^verbatim>\<open>collectSections\<close>.  \<open>navAnchors\<close> lists the anchors inside \<^verbatim>\<open>.nav-links\<close> in
  document order, each with its address and its \<^verbatim>\<open>href\<close> attribute.  The selector
  \<^verbatim>\<open>a[href^="#"]\<close> keeps those whose \<^verbatim>\<open>href\<close> starts with \<^verbatim>\<open>#\<close>; each gives an entry
  with the id \<^verbatim>\<open>href.substring(1)\<close>, and the entries whose section is not in the
  document are filtered out.  \<^verbatim>\<open>document.querySelector\<close> throws on an invalid selector
  (such as a bare \<^verbatim>\<open>#\<close>), which ends the constructor.
\<close>

fun collectFrom :: "(string \<Rightarrow> query_result) \<Rightarrow> (nat \<times> string option) list \<Rightarrow> js_error + nav_section list" where
  "collectFrom q [] = Inr []"
| "collectFrom q ((a, href) # anchors) =
     (case href of
        None \<Rightarrow> collectFrom q anchors
      | Some h \<Rightarrow>
          if h = [] \<or> hd h \<noteq> CHR ''#'' then collectFrom q anchors
          else (case q h of
                  InvalidSelector \<Rightarrow> Inl SyntaxError
                | NoMatch \<Rightarrow> collectFrom q anchors
                | Element offsetTop \<Rightarrow>
                    (case collectFrom q anchors of
                       Inl e \<Rightarrow> Inl e
                     | Inr ss \<Rightarrow> Inr (\<lparr>secId = tl h, navLink = Some a\<rparr> # ss))))"

definition collectSections :: "ui_state \<Rightarrow> js_error + ui_state" where
  "collectSections st =
     (case collectFrom (querySelector st) (navAnchors st) of
        Inl e \<Rightarrow> Inl e
      | Inr ss \<Rightarrow> Inr (st\<lparr>sections := ss\<rparr>))"

text \<open>
  \<^verbatim>\<open>new NavigationManager(nav)\<close> on a page: the fields are set, the hamburger button is
  created, the listeners and the observer are set up, and the sections are collected.
\<close>

definition newNavigationManager :: "ui_state \<Rightarrow> js_error + ui_state" where
  "newNavigationManager page =
     collectSections
       (page\<lparr>mobileMenuOpen := False, activeSection := ''home'', sections := [],
             hamburgerClasses := [''hamburger-btn''], ariaExpanded := ''false''\<rparr>)"

text \<open>
  A page before any script runs: a navigation with links to \<open>#home\<close> (address 0) and
  \<open>#about\<close> (address 1) inside a header 80 pixels high, both sections in the document, and
  a timeline with one experience.
\<close>

definition rawPage :: ui_state where
  "rawPage =
     \<lparr>mobileMenuOpen = False, activeSection = [],
      sections = [],
      linkClassList = (\<lambda>a. []),
      navAnchors = [(0, Some ''#home''), (1, Some ''#about'')],
      navLinksClasses = [''nav-links''], hamburgerClasses = [],
      ariaExpanded = [], bodyOverflow = [],
      experiences = [\<lparr>expId = ''exp-1'', expTitle = ''Developer''\<rparr>],
      modal = None,
      querySelector = (\<lambda>sel. if sel = ''#home'' then Element 0
                        else if sel = ''#about'' then Element 900 else NoMatch),
      headerHeight = Some 80, scrollRequests = [], uncaught = []\<rparr>"

text \<open>
  The page right after \<^verbatim>\<open>new NavigationManager(nav)\<close> on that page (lemma
  \<open>newNavigationManager_rawPage\<close>): the menu is closed, the active section is \<open>home\<close>, no
  link is marked, and the two links are tracked.
\<close>

definition startPage :: ui_state where
  "startPage =
     rawPage\<lparr>mobileMenuOpen := False, activeSection := ''home'',
       sections := [\<lparr>secId = ''home'', navLink = Some 0\<rparr>, \<lparr>secId = ''about'', navLink = Some 1\<rparr>],
       hamburgerClasses := [''hamburger-btn''], ariaExpanded := ''false''\<rparr>"

text \<open>
  The marking that \<^verbatim>\<open>updateActiveSection\<close> establishes: the link of an entry is marked
  exactly when the entry's id is the active section.
\<close>

definition linksFollowActive :: "ui_state \<Rightarrow> bool" where
  "linksFollowActive st =
     list_all (\<lambda>s. case navLink s of
                      None \<Rightarrow> True
                    | Some a \<Rightarrow> isActive st a = (secId s = activeSection st))
       (sections st)"

text \<open>
  The menu is open and the user opens the details of an experience: the timeline's
  listener creates the modal.
\<close>

definition menuAndModal :: ui_state where
  "menuAndModal = showTimelineDetails ''exp-1'' (openMobileMenu startPage)"

section \<open>LazyImageLoader (src/js/components/LazyImageLoader.js)\<close>

text \<open>
  Images are DOM elements, tracked by reference in the set \<^verbatim>\<open>this.images\<close>: the state
  holds every image by address.  The value of \<^verbatim>\<open>src\<close> is a URL or one of the two
  generated SVG data URIs, which are kept symbolic with the width and height they are
  generated from.
\<close>

datatype img_source =
    Url string
  | LoadingPlaceholder string string
  | ErrorPlaceholder string string

record lazy_img =
  imgClasses :: "string list"
  srcAttr :: "img_source option"
  srcsetAttr :: "string option"
  dataSrc :: "string option"
  dataSrcset :: "string option"
  widthAttr :: "string option"
  heightAttr :: "string option"

text \<open>
  \<open>observer\<close> says whether \<^verbatim>\<open>this.observer\<close> is set (the runtime has
  IntersectionObserver); \<open>observeCalls\<close> and \<open>unobserveCalls\<close> log the calls of
  \<^verbatim>\<open>observer.observe\<close> and \<^verbatim>\<open>observer.unobserve\<close>; \<open>preloads\<close> logs the off-DOM
  \<^verbatim>\<open>Image\<close> objects that \<^verbatim>\<open>loadImage\<close> starts, each with its image and the two
  deferred sources it read.
\<close>

record lazy_state =
  placeholderClass :: string
  loadedClass :: string
  errorClass :: string
  observer :: bool
  disconnected :: bool
  observeCalls :: "nat list"
  unobserveCalls :: "nat list"
  images :: "nat set"
  imgs :: "nat \<Rightarrow> lazy_img"
  documentImages :: "nat list"
  preloads :: "(nat \<times> string option \<times> string option) list"

text \<open>JavaScript truthiness of an attribute value: \<^verbatim>\<open>null\<close> and the empty string are falsy.\<close>

definition truthy :: "string option \<Rightarrow> bool" where
  "truthy v = (case v of None \<Rightarrow> False | Some s \<Rightarrow> s \<noteq> [])"

text \<open>
  The test \<^verbatim>\<open>!img.src && !img.getAttribute('src')\<close> of \<^verbatim>\<open>observeImage\<close>, negated.
  \<^verbatim>\<open>img.src\<close> is the attribute resolved against the document's URL: it is empty only
  when the attribute is absent (an empty attribute resolves to the document's own URL), so
  an image has a source exactly when it has the attribute.
\<close>

definition hasSrc :: "lazy_img \<Rightarrow> bool" where
  "hasSrc i = (case srcAttr i of None \<Rightarrow> False | Some v \<Rightarrow> True)"

definition attrOr :: "string option \<Rightarrow> string \<Rightarrow> string" where
  "attrOr v d = (case v of None \<Rightarrow> d | Some s \<Rightarrow> if s = [] then d else s)"

definition generatePlaceholder :: "lazy_img \<Rightarrow> img_source" where
  "generatePlaceholder i =
     LoadingPlaceholder (attrOr (widthAttr i) ''300'') (attrOr (heightAttr i) ''200'')"

definition handleImageError :: "nat \<Rightarrow> lazy_state \<Rightarrow> lazy_state" where
  "handleImageError img st =
     st\<lparr>imgs := (imgs st)(img := (imgs st img)
        \<lparr>srcAttr := Some (ErrorPlaceholder (attrOr (widthAttr (imgs st img)) ''300'')
                                            (attrOr (heightAttr (imgs st img)) ''200''))\<rparr>)\<rparr>"

text \<open>
  \<^verbatim>\<open>loadImage\<close> up to the start of the download: nothing happens without a deferred
  source; otherwise a preloader is started.  Its \<^verbatim>\<open>onload\<close> and \<^verbatim>\<open>onerror\<close> callbacks
  are \<open>preloadLoaded\<close> and \<open>preloadFailed\<close>.
\<close>

definition loadImage :: "nat \<Rightarrow> lazy_state \<Rightarrow> lazy_state" where
  "loadImage img st =
     (let ds = dataSrc (imgs st img); dss = dataSrcset (imgs st img)
      in if \<not> truthy ds \<and> \<not> truthy dss then st
         else st\<lparr>preloads := preloads st @ [(img, ds, dss)]\<rparr>)"

definition applyImageData :: "nat \<Rightarrow> string option \<Rightarrow> string option \<Rightarrow> lazy_state \<Rightarrow> lazy_state" where
  "applyImageData img ds dss st =
     (let i1 = (if truthy dss then (imgs st img)\<lparr>srcsetAttr := dss, dataSrcset := None\<rparr>
                else imgs st img);
          i2 = (case ds of
                  None \<Rightarrow> i1
                | Some u \<Rightarrow> if u = [] then i1 else i1\<lparr>srcAttr := Some (Url u), dataSrc := None\<rparr>)
      in st\<lparr>imgs := (imgs st)(img := i2)\<rparr>)"

definition preloadLoaded :: "nat \<times> string option \<times> string option \<Rightarrow> lazy_state \<Rightarrow> lazy_state" where
  "preloadLoaded p st =
     (case p of (img, ds, dss) \<Rightarrow>
        (let st1 = applyImageData img ds dss st;
             i = imgs st1 img
         in st1\<lparr>imgs := (imgs st1)(img := i\<lparr>imgClasses :=
              classList_add (loadedClass st1)
                (classList_remove (placeholderClass st1) (imgClasses i))\<rparr>)\<rparr>))"

definition preloadFailed :: "nat \<times> string option \<times> string option \<Rightarrow> lazy_state \<Rightarrow> lazy_state" where
  "preloadFailed p st =
     (case p of (img, ds, dss) \<Rightarrow>
        (let i = imgs st img;
             st1 = st\<lparr>imgs := (imgs st)(img := i\<lparr>imgClasses :=
               classList_add (errorClass st)
                 (classList_remove (placeholderClass st) (imgClasses i))\<rparr>)\<rparr>
         in handleImageError img st1))"

definition observeImage :: "nat \<Rightarrow> lazy_state \<Rightarrow> lazy_state" where
  "observeImage img st =
     (if img \<in> images st then st
      else
        (let st1 = st\<lparr>images := insert img (images st)\<rparr>;
             i1 = (imgs st1 img)\<lparr>imgClasses :=
                    classList_add (placeholderClass st1) (imgClasses (imgs st1 img))\<rparr>;
             i2 = (if \<not> hasSrc i1 then i1\<lparr>srcAttr := Some (generatePlaceholder i1)\<rparr> else i1);
             st2 = st1\<lparr>imgs := (imgs st1)(img := i2)\<rparr>
         in if observer st2
            then st2\<lparr>observeCalls := observeCalls st2 @ [img]\<rparr>
            else loadImage img st2))"

definition addImage :: "nat \<Rightarrow> lazy_state \<Rightarrow> lazy_state" where
  "addImage img st = observeImage img st"

fun addImages :: "nat list \<Rightarrow> lazy_state \<Rightarrow> lazy_state" where
  "addImages [] st = st"
| "addImages (img # rest) st = addImages rest (addImage img st)"

text \<open>The images that \<^verbatim>\<open>querySelectorAll('img[data-src], img[data-srcset]')\<close> selects.\<close>

definition lazyImages :: "lazy_state \<Rightarrow> nat list" where
  "lazyImages st =
     filter (\<lambda>a. dataSrc (imgs st a) \<noteq> None \<or> dataSrcset (imgs st a) \<noteq> None) (documentImages st)"

fun observeEach :: "nat list \<Rightarrow> lazy_state \<Rightarrow> lazy_state" where
  "observeEach [] st = st"
| "observeEach (img # rest) st = observeEach rest (observeImage img st)"

definition observeImages :: "lazy_state \<Rightarrow> lazy_state" where
  "observeImages st = observeEach (lazyImages st) st"

fun loadEach :: "nat list \<Rightarrow> lazy_state \<Rightarrow> lazy_state" where
  "loadEach [] st = st"
| "loadEach (img # rest) st = loadEach rest (loadImage img st)"

definition loadAllImages :: "lazy_state \<Rightarrow> lazy_state" where
  "loadAllImages st = loadEach (lazyImages st) st"

text \<open>
  \<^verbatim>\<open>handleIntersection\<close>: an intersecting entry loads its image, stops observing it and
  drops it from the tracked set.
\<close>

fun handleIntersection :: "(bool \<times> nat) list \<Rightarrow> lazy_state \<Rightarrow> lazy_state" where
  "handleIntersection [] st = st"
| "handleIntersection ((isIntersecting, img) # entries) st =
     handleIntersection entries
       (if isIntersecting
        then (let st1 = loadImage img st
              in st1\<lparr>unobserveCalls := unobserveCalls st1 @ [img],
                      images := images st1 - {img}\<rparr>)
        else st)"

definition destroy :: "lazy_state \<Rightarrow> lazy_state" where
  "destroy st =
     (if observer st then st\<lparr>disconnected := True, images := {}\<rparr> else st\<lparr>images := {}\<rparr>)"

text \<open>
  \<^verbatim>\<open>new LazyImageLoader(options)\<close> on a document; \<open>supported\<close> says whether the runtime
  has IntersectionObserver.
\<close>

definition newLazyImageLoader :: "bool \<Rightarrow> (nat \<Rightarrow> lazy_img) \<Rightarrow> nat list \<Rightarrow> lazy_state" where
  "newLazyImageLoader supported elements inDocument =
     (let st = \<lparr>placeholderClass = ''lazy-placeholder'', loadedClass = ''lazy-loaded'',
                errorClass = ''lazy-error'', observer = False, disconnected = False,
                observeCalls = [], unobserveCalls = [], images = {},
                imgs = elements, documentImages = inDocument, preloads = []\<rparr>
      in if \<not> supported then loadAllImages st
         else observeImages (st\<lparr>observer := True\<rparr>))"

text \<open>A document with one deferred image (address 0) and no other image.\<close>

definition deferredImg :: lazy_img where
  "deferredImg =
     \<lparr>imgClasses = [], srcAttr = None, srcsetAttr = None, dataSrc = Some ''a.jpg'',
      dataSrcset = None, widthAttr = None, heightAttr = None\<rparr>"

definition emptyLoader :: lazy_state where
  "emptyLoader = newLazyImageLoader True (\<lambda>a. deferredImg) []"

section \<open>PortfolioApp.loadData (src/unnamed/part_004)\<close>

text \<open>
  The three datasets, with the items of their two lists kept as identifiers.  A fetch ends
  in a rejected \<^verbatim>\<open>fetch\<close> promise, in a body that \<^verbatim>\<open>response.json()\<close> rejects, or in
  the parsed dataset.
\<close>

datatype projects_json = ProjectsJson (projects: "string list") (categories: "string list")

datatype articles_json = ArticlesJson (articles: "string list") (articleCategories: "string list")

datatype timeline_json = TimelineJson (timelineExperiences: "string list") (skills: "string list")

datatype 'a fetched = FetchRejected | JsonRejected | Body 'a

record server =
  projectsFile :: "projects_json fetched"
  articlesFile :: "articles_json fetched"
  timelineFile :: "timeline_json fetched"

record app_state =
  dataProjects :: "projects_json option"
  dataArticles :: "articles_json option"
  dataTimeline :: "timeline_json option"
  requested :: "string list"
  loadErrors :: nat

text \<open>The \<^verbatim>\<open>catch\<close> block of \<^verbatim>\<open>loadData\<close>.\<close>

definition fallbackData :: "app_state \<Rightarrow> app_state" where
  "fallbackData st =
     st\<lparr>loadErrors := Suc (loadErrors st),
        dataProjects := Some (ProjectsJson [] []),
        dataArticles := Some (ArticlesJson [] []),
        dataTimeline := Some (TimelineJson [] [])\<rparr>"

text \<open>
  \<^verbatim>\<open>loadData\<close>: the three fetches are awaited one after the other inside one
  \<^verbatim>\<open>try\<close>; the first failure jumps to the \<^verbatim>\<open>catch\<close> block.
\<close>

definition loadData :: "server \<Rightarrow> app_state \<Rightarrow> app_state" where
  "loadData srv st =
     (let st1 = st\<lparr>requested := requested st @ [''./data/projects.json'']\<rparr>
      in case projectsFile srv of
           Body p \<Rightarrow>
             (let st2 = st1\<lparr>dataProjects := Some p,
                            requested := requested st1 @ [''./data/articles.json'']\<rparr>
              in case articlesFile srv of
                   Body a \<Rightarrow>
                     (let st3 = st2\<lparr>dataArticles := Some a,
                                    requested := requested st2 @ [''./data/timeline.json'']\<rparr>
                      in case timelineFile srv of
                           Body t \<Rightarrow> st3\<lparr>dataTimeline := Some t\<rparr>
                         | _ \<Rightarrow> fallbackData st3)
                 | _ \<Rightarrow> fallbackData st2)
         | _ \<Rightarrow> fallbackData st1)"

text \<open>\<^verbatim>\<open>new PortfolioApp()\<close>: no data yet.\<close>

definition newPortfolioApp :: app_state where
  "newPortfolioApp =
     \<lparr>dataProjects = None, dataArticles = None, dataTimeline = None,
      requested = [], loadErrors = 0\<rparr>"

text \<open>A server on which only articles.json cannot be fetched.\<close>

definition articlesDown :: server where
  "articlesDown =
     \<lparr>projectsFile = Body (ProjectsJson [''portfolio-site''] [''web'']),
      articlesFile = FetchRejected,
      timelineFile = Body (TimelineJson [''exp-1''] [''frontend''])\<rparr>"

definition allUp :: server where
  "allUp = articlesDown\<lparr>articlesFile := Body (ArticlesJson [''hello-world''] [''news''])\<rparr>"

section \<open>Theorems about ThemeManager\<close>

lemma supported_iff: "s \<in> set supportedThemes \<longleftrightarrow> s = ''dark'' \<or> s = ''light''"
  by (auto simp: supportedThemes_def)

text \<open>
  C1. For every string \<open>s\<close> outside \<open>{dark, light}\<close>, \<open>setTheme s\<close> changes nothing but the
  console: the current theme, the \<^verbatim>\<open>data-theme\<close> attribute of the document root and the
  persisted store are as before, and no \<^verbatim>\<open>themeChanged\<close> event is dispatched.
\<close>

theorem setTheme_invalid_noop:
  assumes "s \<noteq> ''dark''" and "s \<noteq> ''light''"
  shows "setTheme s st = st\<lparr>warnings := warnings st @ [InvalidThemeName s]\<rparr>
       \<and> currentTheme (setTheme s st) = currentTheme st
       \<and> dataTheme (setTheme s st) = dataTheme st
       \<and> stored (setTheme s st) = stored st
       \<and> dispatched (setTheme s st) = dispatched st
       \<and> observe (setTheme s st) = observe st"
  using assms by (simp add: setTheme_def supported_iff observe_def)

theorem setTheme_invalid_noop_witness:
  "setTheme ''blue'' freshPage = freshPage\<lparr>warnings := warnings freshPage @ [InvalidThemeName ''blue'']\<rparr>
   \<and> currentTheme (setTheme ''blue'' freshPage) = currentTheme freshPage
   \<and> dataTheme (setTheme ''blue'' freshPage) = dataTheme freshPage
   \<and> stored (setTheme ''blue'' freshPage) = stored freshPage
   \<and> dispatched (setTheme ''blue'' freshPage) = dispatched freshPage
   \<and> observe (setTheme ''blue'' freshPage) = observe freshPage"
proof -
  have a: "''blue'' \<noteq> ''dark''" and b: "''blue'' \<noteq> ''light''"
    by simp_all
  show ?thesis
    by (rule setTheme_invalid_noop [OF a b])
qed

subsection \<open>What the methods do to each field\<close>

lemma currentTheme_setTheme_valid:
  "n \<in> set supportedThemes \<Longrightarrow> currentTheme (setTheme n st) = n"
  by (simp add: setTheme_def Let_def dispatchThemeChangeEvent_def persistTheme_def
      updateToggleButton_def applyThemeWithTransition_def clearTimeout_def
      split: option.splits)

lemma dataTheme_setTheme_valid:
  "n \<in> set supportedThemes \<Longrightarrow> dataTheme (setTheme n st) = Some n"
  by (simp add: setTheme_def Let_def dispatchThemeChangeEvent_def persistTheme_def
      updateToggleButton_def applyThemeWithTransition_def clearTimeout_def
      split: option.splits)

lemma dispatched_setTheme_valid:
  "n \<in> set supportedThemes \<Longrightarrow>
   dispatched (setTheme n st) = dispatched st @
     [(\<lparr>theme = n, previousTheme = currentTheme st, timestamp = clock st\<rparr>,
       observe (setTheme n st))]"
  by (simp add: setTheme_def Let_def dispatchThemeChangeEvent_def persistTheme_def
      updateToggleButton_def applyThemeWithTransition_def clearTimeout_def observe_def
      split: option.splits)

lemma currentTheme_updateToggleButton:
  "currentTheme (updateToggleButton st) = currentTheme st"
  by (simp add: updateToggleButton_def split: option.splits)

lemma currentTheme_initializeTheme:
  "currentTheme (initializeTheme st) =
     (if getItemThrows st then detectSystemTheme st
      else case stored st storageKey of
             None \<Rightarrow> detectSystemTheme st
           | Some s \<Rightarrow> if s = [] then detectSystemTheme st
                       else if s \<in> set supportedThemes then s else ''dark'')"
  by (simp add: initializeTheme_def getSavedTheme_def persistTheme_def applyThemeImmediate_def
      detectSystemTheme_def Let_def supportedThemes_def split: option.splits) blast

lemma dataTheme_initializeTheme:
  "dataTheme (initializeTheme st) = Some (currentTheme (initializeTheme st))"
  by (simp add: initializeTheme_def getSavedTheme_def persistTheme_def applyThemeImmediate_def
      detectSystemTheme_def Let_def supportedThemes_def split: option.splits)

lemma stored_initializeTheme:
  "\<not> setItemThrows st \<Longrightarrow>
   stored (initializeTheme st) storageKey = Some (currentTheme (initializeTheme st))"
  by (simp add: initializeTheme_def getSavedTheme_def persistTheme_def applyThemeImmediate_def
      detectSystemTheme_def Let_def supportedThemes_def split: option.splits)

lemma supported_initializeTheme:
  "currentTheme (initializeTheme st) \<in> set supportedThemes"
  by (simp add: currentTheme_initializeTheme detectSystemTheme_def supported_iff
      split: option.splits)

lemma flags_initializeTheme:
  "getItemThrows (initializeTheme st) = getItemThrows st"
  "setItemThrows (initializeTheme st) = setItemThrows st"
  by (simp_all add: initializeTheme_def getSavedTheme_def persistTheme_def
      applyThemeImmediate_def detectSystemTheme_def Let_def supportedThemes_def
      split: option.splits)

lemma fields_setupThemeToggle:
  "currentTheme (setupThemeToggle st) = currentTheme st"
  "stored (setupThemeToggle st) = stored st"
  "dataTheme (setupThemeToggle st) = dataTheme st"
  "getItemThrows (setupThemeToggle st) = getItemThrows st"
  "setItemThrows (setupThemeToggle st) = setItemThrows st"
  by (simp_all add: setupThemeToggle_def setupSystemThemeListener_def updateToggleButton_def
      split: option.splits)

lemma currentTheme_newThemeManager:
  "currentTheme (newThemeManager page) =
     currentTheme (initializeTheme (page\<lparr>currentTheme := ''dark'', transitionTimeout := None\<rparr>))"
  by (simp add: newThemeManager_def fields_setupThemeToggle)

lemma stored_newThemeManager:
  "\<not> setItemThrows page \<Longrightarrow>
   stored (newThemeManager page) storageKey = Some (currentTheme (newThemeManager page))"
  by (simp add: newThemeManager_def fields_setupThemeToggle stored_initializeTheme)

lemma onSystemThemeChange_saved:
  "\<not> getItemThrows st \<Longrightarrow> stored st storageKey = Some s \<Longrightarrow> s \<noteq> [] \<Longrightarrow>
   onSystemThemeChange m st = st"
  by (simp add: onSystemThemeChange_def getSavedTheme_def)

lemma onSystemThemeChange_unsaved:
  "getItemThrows st \<or> stored st storageKey = None \<or> stored st storageKey = Some [] \<Longrightarrow>
   currentTheme (onSystemThemeChange m st) = (if m then ''light'' else ''dark'')"
  by (auto simp: onSystemThemeChange_def getSavedTheme_def currentTheme_updateToggleButton
      currentTheme_setTheme_valid supported_iff)

subsection \<open>The claims\<close>

text \<open>
  C6. For every current theme \<open>t\<close> in \<open>{dark, light}\<close>, two calls of \<open>toggleTheme\<close> in
  succession restore the current theme to \<open>t\<close>: toggling is an involution on the theme.
\<close>

theorem toggleTheme_twice:
  assumes "currentTheme st = ''dark'' \<or> currentTheme st = ''light''"
  shows "getCurrentTheme (toggleTheme (toggleTheme st)) = getCurrentTheme st"
  using assms
  by (auto simp: toggleTheme_def getCurrentTheme_def Let_def currentTheme_setTheme_valid
      supported_iff)

theorem toggleTheme_twice_witness:
  "getCurrentTheme (toggleTheme (toggleTheme (newThemeManager lightPage))) = ''light''
   \<and> getCurrentTheme (newThemeManager lightPage) = ''light''"
proof -
  have cur: "currentTheme (newThemeManager lightPage) = ''light''"
    by (simp add: currentTheme_newThemeManager currentTheme_initializeTheme lightPage_def
        freshPage_def supported_iff)
  then have "currentTheme (newThemeManager lightPage) = ''dark''
      \<or> currentTheme (newThemeManager lightPage) = ''light''"
    by simp
  from toggleTheme_twice [OF this] cur show ?thesis
    by (simp add: getCurrentTheme_def)
qed

text \<open>
  C8. For every valid theme name, \<open>setTheme\<close> dispatches exactly one \<^verbatim>\<open>themeChanged\<close>
  event, after the state is changed: the event carries the new theme, the previous theme and
  the timestamp, and what its listeners see while it is dispatched is the state \<open>setTheme\<close>
  ends in, where the current theme is the new one and the document root's
  \<^verbatim>\<open>data-theme\<close> attribute is set to it.
\<close>

theorem setTheme_notifies_after_mutation:
  assumes "n = ''dark'' \<or> n = ''light''"
  shows "dispatched (setTheme n st) = dispatched st @
           [(\<lparr>theme = n, previousTheme = currentTheme st, timestamp = clock st\<rparr>,
             observe (setTheme n st))]
       \<and> seenCurrentTheme (observe (setTheme n st)) = n
       \<and> seenDataTheme (observe (setTheme n st)) = Some n"
proof -
  from assms have v: "n \<in> set supportedThemes"
    by (simp add: supported_iff)
  have "seenCurrentTheme (observe (setTheme n st)) = n"
    by (simp add: observe_def currentTheme_setTheme_valid [OF v])
  moreover have "seenDataTheme (observe (setTheme n st)) = Some n"
    by (simp add: observe_def dataTheme_setTheme_valid [OF v])
  ultimately show ?thesis
    using dispatched_setTheme_valid [OF v, of st] by simp
qed

theorem setTheme_notifies_after_mutation_witness:
  "dispatched (setTheme ''light'' (newThemeManager freshPage)) =
     dispatched (newThemeManager freshPage) @
       [(\<lparr>theme = ''light'', previousTheme = currentTheme (newThemeManager freshPage),
          timestamp = clock (newThemeManager freshPage)\<rparr>,
         observe (setTheme ''light'' (newThemeManager freshPage)))]
   \<and> seenCurrentTheme (observe (setTheme ''light'' (newThemeManager freshPage))) = ''light''
   \<and> seenDataTheme (observe (setTheme ''light'' (newThemeManager freshPage))) = Some ''light''"
proof -
  have "''light'' = ''dark'' \<or> ''light'' = ''light''"
    by simp
  then show ?thesis
    by (rule setTheme_notifies_after_mutation)
qed

text \<open>
  C3, as the code has it.  The saved value decides whenever it is a non-empty string: a
  valid saved value is the initial theme, and a non-empty saved value that is no theme
  name gives the default \<open>dark\<close> without the OS being asked.  The OS-reported preference
  is the initial theme only when there is no saved value (the key is absent, holds the empty
  string, or the store cannot be read).  The document root gets the resulting theme.
\<close>

theorem initializeTheme_order:
  "(\<forall>s. \<not> getItemThrows st \<and> stored st storageKey = Some s \<and> (s = ''dark'' \<or> s = ''light'')
        \<longrightarrow> currentTheme (initializeTheme st) = s)
 \<and> (\<forall>s. \<not> getItemThrows st \<and> stored st storageKey = Some s \<and> s \<noteq> []
          \<and> s \<noteq> ''dark'' \<and> s \<noteq> ''light''
        \<longrightarrow> currentTheme (initializeTheme st) = ''dark'')
 \<and> (getItemThrows st \<or> stored st storageKey = None \<or> stored st storageKey = Some []
        \<longrightarrow> currentTheme (initializeTheme st) = detectSystemTheme st)
 \<and> dataTheme (initializeTheme st) = Some (currentTheme (initializeTheme st))"
  by (auto simp: currentTheme_initializeTheme dataTheme_initializeTheme supported_iff)

theorem initializeTheme_order_witness:
  "currentTheme (initializeTheme lightPage) = ''light''
   \<and> currentTheme (initializeTheme bluePage) = ''dark''
   \<and> currentTheme (initializeTheme (freshPage\<lparr>prefersLight := True\<rparr>)) = ''light''
   \<and> dataTheme (initializeTheme bluePage) = Some ''dark''"
  using initializeTheme_order [of lightPage] initializeTheme_order [of bluePage]
    initializeTheme_order [of "freshPage\<lparr>prefersLight := True\<rparr>"]
  by (simp add: lightPage_def bluePage_def freshPage_def detectSystemTheme_def)

text \<open>
  C3, as the claim states it, fails: with the saved value \<open>blue\<close> (no valid theme) and an
  OS that reports \<open>light\<close>, the initial theme is \<open>dark\<close>, not the OS preference.
\<close>

theorem initializeTheme_invalid_saved_counterexample:
  "stored bluePage storageKey = Some ''blue''
   \<and> detectSystemTheme bluePage = ''light''
   \<and> currentTheme (initializeTheme bluePage) = ''dark''"
  by (simp add: bluePage_def freshPage_def currentTheme_initializeTheme detectSystemTheme_def
      supported_iff)

lemma stored_initializeTheme_throws:
  "setItemThrows st \<Longrightarrow> stored (initializeTheme st) = stored st"
  by (simp add: initializeTheme_def getSavedTheme_def persistTheme_def applyThemeImmediate_def
      Let_def split: option.splits)

lemma saveFailed_initializeTheme:
  "count_list (warnings (initializeTheme st)) SaveThemeFailed =
     (if setItemThrows st then Suc (count_list (warnings st) SaveThemeFailed)
      else count_list (warnings st) SaveThemeFailed)"
  by (simp add: initializeTheme_def getSavedTheme_def persistTheme_def applyThemeImmediate_def
      Let_def split: option.splits)

lemma saveFailed_setupThemeToggle:
  "count_list (warnings (setupThemeToggle st)) SaveThemeFailed
     = count_list (warnings st) SaveThemeFailed"
  by (simp add: setupThemeToggle_def setupSystemThemeListener_def updateToggleButton_def
      split: option.splits)

text \<open>
  C9, as the code has it.  Constructing the ThemeManager always tries to persist the
  resolved startup theme, which is \<open>dark\<close> or \<open>light\<close>.  Whenever the store accepts the
  write, the store holds the current theme under the storage key right after construction,
  whether it came from a saved value, from the OS preference or from the default, and no
  failure to save is logged.  Whenever the write throws, \<open>persistTheme\<close> catches the
  exception: the store is left exactly as it was, and one failure to save is logged.
\<close>

theorem construction_persists_theme:
  "(\<not> setItemThrows page \<longrightarrow>
      stored (newThemeManager page) storageKey = Some (currentTheme (newThemeManager page))
      \<and> count_list (warnings (newThemeManager page)) SaveThemeFailed
          = count_list (warnings page) SaveThemeFailed)
 \<and> (setItemThrows page \<longrightarrow>
      stored (newThemeManager page) = stored page
      \<and> count_list (warnings (newThemeManager page)) SaveThemeFailed
          = Suc (count_list (warnings page) SaveThemeFailed))
 \<and> (currentTheme (newThemeManager page) = ''dark''
      \<or> currentTheme (newThemeManager page) = ''light'')"
proof -
  let ?p = "page\<lparr>currentTheme := ''dark'', transitionTimeout := None\<rparr>"
  have cur: "currentTheme (newThemeManager page) = ''dark''
      \<or> currentTheme (newThemeManager page) = ''light''"
    using supported_initializeTheme [of ?p]
    by (simp add: currentTheme_newThemeManager supported_iff)
  have cnt: "count_list (warnings (newThemeManager page)) SaveThemeFailed =
      (if setItemThrows page then Suc (count_list (warnings page) SaveThemeFailed)
       else count_list (warnings page) SaveThemeFailed)"
    by (simp add: newThemeManager_def saveFailed_setupThemeToggle saveFailed_initializeTheme)
  have thr: "setItemThrows page \<Longrightarrow> stored (newThemeManager page) = stored page"
    by (simp add: newThemeManager_def fields_setupThemeToggle stored_initializeTheme_throws)
  from cur cnt thr show ?thesis
    by (simp add: stored_newThemeManager)
qed

theorem construction_persists_theme_witness:
  "stored freshPage storageKey = None
   \<and> stored (newThemeManager freshPage) storageKey = Some ''dark''
   \<and> currentTheme (newThemeManager freshPage) = ''dark''
   \<and> count_list (warnings (newThemeManager freshPage)) SaveThemeFailed = 0
   \<and> stored (newThemeManager readOnlyPage) = stored readOnlyPage
   \<and> count_list (warnings (newThemeManager readOnlyPage)) SaveThemeFailed = 1"
proof -
  have cur: "currentTheme (newThemeManager freshPage) = ''dark''"
    by (simp add: currentTheme_newThemeManager currentTheme_initializeTheme freshPage_def
        detectSystemTheme_def)
  from construction_persists_theme [of freshPage] construction_persists_theme [of readOnlyPage]
    cur
  show ?thesis
    by (simp add: freshPage_def readOnlyPage_def)
qed

text \<open>
  C9, as the claim states it, fails when the store refuses the write: \<open>persistTheme\<close>
  catches the exception, and after construction nothing is persisted.
\<close>

theorem construction_unwritable_store_counterexample:
  "stored (newThemeManager readOnlyPage) storageKey = None
   \<and> currentTheme (newThemeManager readOnlyPage) = ''dark''"
  by (simp add: readOnlyPage_def freshPage_def newThemeManager_def fields_setupThemeToggle
      initializeTheme_def getSavedTheme_def persistTheme_def applyThemeImmediate_def
      detectSystemTheme_def Let_def supportedThemes_def)

text \<open>
  What the listener on the media query does: with a saved non-empty value it changes
  nothing; without one it sets the theme the OS reports.  After a construction on a store
  that can be read and written there always is a saved value, so the listener never
  switches the theme.
\<close>

lemma listener_idle_after_construction:
  assumes "\<not> setItemThrows page" and "\<not> getItemThrows page"
  shows "onSystemThemeChange m (newThemeManager page) = newThemeManager page"
proof -
  let ?st = "newThemeManager page"
  have s: "stored ?st storageKey = Some (currentTheme ?st)"
    using assms(1) by (rule stored_newThemeManager)
  have "currentTheme ?st \<in> set supportedThemes"
    by (simp add: currentTheme_newThemeManager supported_initializeTheme)
  then have ne: "currentTheme ?st \<noteq> []"
    by (auto simp: supported_iff)
  have "\<not> getItemThrows ?st"
    using assms(2) by (simp add: newThemeManager_def fields_setupThemeToggle flags_initializeTheme)
  from onSystemThemeChange_saved [OF this s ne] show ?thesis .
qed

text \<open>
  C5 at a first visit.  Nothing is stored and the user never chooses a theme; the
  ThemeManager is constructed (the listener on the media query is registered), then the OS
  changes its preference to light.  The theme stays \<open>dark\<close>: the listener finds the value
  that \<open>initializeTheme\<close> itself persisted and takes it for a choice of the user.
\<close>

theorem system_change_ignored_after_first_visit:
  "stored freshPage storageKey = None
   \<and> systemListener (newThemeManager freshPage)
   \<and> currentTheme (newThemeManager freshPage) = ''dark''
   \<and> currentTheme (systemThemeChanged True (newThemeManager freshPage)) = ''dark''
   \<and> dispatched (systemThemeChanged True (newThemeManager freshPage)) = []"
  by (simp add: freshPage_def newThemeManager_def systemThemeChanged_def
      onSystemThemeChange_def setupThemeToggle_def setupSystemThemeListener_def
      updateToggleButton_def initializeTheme_def getSavedTheme_def persistTheme_def
      applyThemeImmediate_def detectSystemTheme_def Let_def supportedThemes_def)

section \<open>Theorems about NavigationManager and the scroll lock\<close>

lemma markLinks_frame:
  "a \<notin> set (linksOf ss) \<Longrightarrow> markLinks sid ss cl a = cl a"
  by (induction ss arbitrary: cl) (auto split: option.splits)

lemma linksOf_filter_subset:
  "set (linksOf (filter P ss)) \<subseteq> set (linksOf ss)"
  by (induction ss) (auto split: option.splits)

lemma distinct_linksOf_filter:
  "distinct (linksOf ss) \<Longrightarrow> distinct (linksOf (filter P ss))"
  using linksOf_filter_subset [of P]
  by (induction ss) (auto split: option.splits)

lemma active_after_add: "classList_contains ''active'' (classList_add ''active'' cs)"
  by (simp add: classList_contains_def classList_add_def)

lemma active_after_remove: "\<not> classList_contains ''active'' (classList_remove ''active'' cs)"
  by (simp add: classList_contains_def classList_remove_def)

lemma markLinks_active:
  "distinct (linksOf ss) \<Longrightarrow> a \<in> set (linksOf ss) \<Longrightarrow>
   classList_contains ''active'' (markLinks sid ss cl a)
     \<longleftrightarrow> a \<in> set (linksOf (filter (\<lambda>s. secId s = sid) ss))"
proof (induction ss arbitrary: cl)
  case Nil
  then show ?case by simp
next
  case (Cons s ss)
  show ?case
  proof (cases "navLink s")
    case None
    with Cons show ?thesis by simp
  next
    case (Some b)
    with Cons.prems have fresh: "b \<notin> set (linksOf ss)" and d: "distinct (linksOf ss)"
      by simp_all
    from fresh linksOf_filter_subset [of "\<lambda>s. secId s = sid" ss]
    have nb: "b \<notin> set (linksOf (filter (\<lambda>s. secId s = sid) ss))"
      by blast
    show ?thesis
    proof (cases "a = b")
      case True
      with Some fresh nb show ?thesis
        by (simp add: markLinks_frame active_after_add active_after_remove)
    next
      case False
      with Cons.prems Some have "a \<in> set (linksOf ss)"
        by simp
      from Cons.IH [OF d this] Some False show ?thesis
        by simp
    qed
  qed
qed

lemma links_of_section:
  "s \<in> set ss \<Longrightarrow> navLink s = Some a \<Longrightarrow> a \<in> set (linksOf ss)"
  by (induction ss) (auto split: option.splits)

lemma section_link_filter:
  "distinct (linksOf ss) \<Longrightarrow> s \<in> set ss \<Longrightarrow> navLink s = Some a \<Longrightarrow>
   a \<in> set (linksOf (filter P ss)) \<longleftrightarrow> P s"
proof (induction ss)
  case Nil
  then show ?case by simp
next
  case (Cons t ss)
  then show ?case
    using linksOf_filter_subset [of P ss] links_of_section [of s ss a]
    by (auto split: option.splits)
qed

lemma count_marked:
  assumes "distinct (linksOf ss)"
  shows "length (filter (\<lambda>a. classList_contains ''active'' (markLinks sid ss cl a)) (linksOf ss))
       = length (linksOf (filter (\<lambda>s. secId s = sid) ss))"
proof -
  let ?T = "linksOf (filter (\<lambda>s. secId s = sid) ss)"
  have "filter (\<lambda>a. classList_contains ''active'' (markLinks sid ss cl a)) (linksOf ss)
      = filter (\<lambda>a. a \<in> set ?T) (linksOf ss)"
    by (rule filter_cong) (simp_all add: markLinks_active [OF assms])
  then have "length (filter (\<lambda>a. classList_contains ''active'' (markLinks sid ss cl a)) (linksOf ss))
      = card ({a. a \<in> set ?T} \<inter> set (linksOf ss))"
    by (simp add: distinct_length_filter [OF assms])
  also have "{a. a \<in> set ?T} \<inter> set (linksOf ss) = set ?T"
    using linksOf_filter_subset [of "\<lambda>s. secId s = sid" ss] by auto
  also have "card (set ?T) = length ?T"
    by (rule distinct_card [OF distinct_linksOf_filter [OF assms]])
  finally show ?thesis .
qed

text \<open>
  The entries that \<open>collectSections\<close> builds hold links of the navigation, one entry per
  anchor, so their links are pairwise different.
\<close>

lemma collectFrom_links:
  "collectFrom q anchors = Inr ss \<Longrightarrow> set (linksOf ss) \<subseteq> fst ` set anchors"
proof (induction anchors arbitrary: ss)
  case Nil
  then show ?case by simp
next
  case (Cons p anchors)
  obtain a href where p: "p = (a, href)"
    by (cases p)
  from Cons.prems Cons.IH show ?case
    unfolding p
    by (fastforce split: option.splits if_splits query_result.splits sum.splits)
qed

lemma collectFrom_distinct:
  "distinct (map fst anchors) \<Longrightarrow> collectFrom q anchors = Inr ss \<Longrightarrow> distinct (linksOf ss)"
proof (induction anchors arbitrary: ss)
  case Nil
  then show ?case by simp
next
  case (Cons p anchors)
  obtain a href where p: "p = (a, href)"
    by (cases p)
  from Cons.prems Cons.IH collectFrom_links [of q anchors] show ?case
    unfolding p
    by (fastforce split: option.splits if_splits query_result.splits sum.splits)
qed

lemma collectSections_distinct:
  "distinct (map fst (navAnchors st)) \<Longrightarrow> collectSections st = Inr st' \<Longrightarrow>
   distinct (linksOf (sections st'))"
  by (auto simp: collectSections_def split: sum.splits dest: collectFrom_distinct)

lemma newNavigationManager_rawPage: "newNavigationManager rawPage = Inr startPage"
  by (simp add: newNavigationManager_def collectSections_def rawPage_def startPage_def)

lemma sections_updateActiveSection:
  "sections (updateActiveSection sid st) = sections st"
  by (simp add: updateActiveSection_def)

lemma activeSection_updateActiveSection:
  "activeSection (updateActiveSection sid st) = sid"
  by (simp add: updateActiveSection_def)

lemma follow_after_update:
  assumes "distinct (linksOf (sections st))" and "activeSection st \<noteq> sid"
  shows "linksFollowActive (updateActiveSection sid st)"
  unfolding linksFollowActive_def list_all_iff
proof
  fix s
  assume s: "s \<in> set (sections (updateActiveSection sid st))"
  then have s': "s \<in> set (sections st)"
    by (simp add: sections_updateActiveSection)
  show "case navLink s of
          None \<Rightarrow> True
        | Some a \<Rightarrow> isActive (updateActiveSection sid st) a
                     = (secId s = activeSection (updateActiveSection sid st))"
  proof (cases "navLink s")
    case None
    then show ?thesis by simp
  next
    case (Some a)
    from links_of_section [OF s' Some] have "a \<in> set (linksOf (sections st))" .
    from markLinks_active [OF assms(1) this, of sid "linkClassList st"]
      section_link_filter [OF assms(1) s' Some, of "\<lambda>s. secId s = sid"]
    show ?thesis
      using Some assms(2)
      by (simp add: isActive_def updateActiveSection_def)
  qed
qed

lemma follow_preserved:
  assumes "distinct (linksOf (sections st))" and "linksFollowActive st"
  shows "linksFollowActive (updateActiveSection sid st)"
proof (cases "activeSection st = sid")
  case True
  with assms(2) show ?thesis
    by (simp add: updateActiveSection_def)
next
  case False
  with assms(1) show ?thesis
    by (rule follow_after_update)
qed

lemma follow_updateAll:
  "distinct (linksOf (sections st)) \<Longrightarrow> linksFollowActive st \<Longrightarrow>
   linksFollowActive (updateAll ids st)"
proof (induction ids arbitrary: st)
  case Nil
  then show ?case by simp
next
  case (Cons i ids)
  from Cons.prems have "linksFollowActive (updateActiveSection i st)"
    by (rule follow_preserved)
  moreover from Cons.prems(1) have "distinct (linksOf (sections (updateActiveSection i st)))"
    by (simp add: sections_updateActiveSection)
  ultimately show ?case
    using Cons.IH by simp
qed

lemma count_after_update:
  assumes "distinct (linksOf (sections st))" and "activeSection st \<noteq> sid"
  shows "activeCount (updateActiveSection sid st)
       = length (linksOf (filter (\<lambda>s. secId s = sid) (sections st)))"
proof -
  have "isActive (updateActiveSection sid st)
      = (\<lambda>a. classList_contains ''active'' (markLinks sid (sections st) (linkClassList st) a))"
    using assms(2) by (simp add: isActive_def updateActiveSection_def fun_eq_iff)
  then show ?thesis
    using count_marked [OF assms(1), of sid "linkClassList st"]
    by (simp add: activeCount_def sections_updateActiveSection)
qed

lemma frame_after_update:
  "a \<notin> set (linksOf (sections st)) \<Longrightarrow>
   linkClassList (updateActiveSection sid st) a = linkClassList st a"
  by (simp add: updateActiveSection_def markLinks_frame)

text \<open>
  C4, as the code has it.  The entries of \<^verbatim>\<open>this.sections\<close> hold pairwise different
  links.  A call with the id of the current active section changes nothing.  A call with
  another id makes it the active section and marks exactly the links of the entries with
  that id: the number of marked links is the number of such entries, so one link when the
  id names one tracked section and none when it names no tracked section.  Links that no
  entry holds are left as they are.  Once the links follow the active section they do so
  after any sequence of further calls.
\<close>

theorem updateActiveSection_marks:
  assumes "distinct (linksOf (sections st))"
  shows "(activeSection st = sid \<longrightarrow> updateActiveSection sid st = st)
       \<and> (activeSection st \<noteq> sid \<longrightarrow>
            activeSection (updateActiveSection sid st) = sid
          \<and> linksFollowActive (updateActiveSection sid st)
          \<and> activeCount (updateActiveSection sid st)
              = length (linksOf (filter (\<lambda>s. secId s = sid) (sections st))))
       \<and> (\<forall>a. a \<notin> set (linksOf (sections st)) \<longrightarrow>
            linkClassList (updateActiveSection sid st) a = linkClassList st a)
       \<and> (linksFollowActive st \<longrightarrow> linksFollowActive (updateAll ids st))"
  using assms
  by (simp add: follow_after_update count_after_update frame_after_update follow_updateAll
      activeSection_updateActiveSection)
    (simp add: updateActiveSection_def)

lemma startPage_distinct: "distinct (linksOf (sections startPage))"
  by (simp add: startPage_def rawPage_def)

theorem updateActiveSection_marks_witness:
  "updateActiveSection ''home'' startPage = startPage
   \<and> activeSection (updateActiveSection ''about'' startPage) = ''about''
   \<and> linksFollowActive (updateActiveSection ''about'' startPage)
   \<and> activeCount (updateActiveSection ''about'' startPage) = 1
   \<and> linkClassList (updateActiveSection ''about'' startPage) 7 = linkClassList startPage 7
   \<and> linksFollowActive (updateAll [''home'', ''about''] (updateActiveSection ''about'' startPage))"
proof -
  let ?st = "updateActiveSection ''about'' startPage"
  have d: "distinct (linksOf (sections ?st))"
    by (simp add: sections_updateActiveSection startPage_distinct)
  have first: "activeSection ?st = ''about'' \<and> linksFollowActive ?st \<and> activeCount ?st = 1
      \<and> linkClassList ?st 7 = linkClassList startPage 7"
    using updateActiveSection_marks [OF startPage_distinct, of "''about''" "[]"]
    by (simp add: startPage_def rawPage_def)
  have same: "updateActiveSection ''home'' startPage = startPage"
    using updateActiveSection_marks [OF startPage_distinct, of "''home''" "[]"]
    by (simp add: startPage_def rawPage_def)
  have "linksFollowActive (updateAll [''home'', ''about''] ?st)"
    using updateActiveSection_marks [OF d, of "''about''" "[''home'', ''about'']"] first
    by blast
  with first same show ?thesis
    by blast
qed

text \<open>
  C4, as the claim states it, fails.  On the page after construction, after
  \<open>updateActiveSection about\<close> one link is marked; a further call with \<open>pricing\<close>, which
  names no tracked section, leaves no link marked.  The first call after construction
  with \<open>home\<close>, the initial active section, is the no-op and leaves no link marked either.
\<close>

theorem updateActiveSection_unknown_id_counterexample:
  "activeCount (updateActiveSection ''about'' startPage) = 1
   \<and> activeCount (updateActiveSection ''pricing'' (updateActiveSection ''about'' startPage)) = 0
   \<and> activeCount (updateActiveSection ''home'' startPage) = 0"
  by (simp add: startPage_def rawPage_def updateActiveSection_def activeCount_def isActive_def
      classList_contains_def classList_add_def classList_remove_def)

lemma closeMobileMenu_overflow:
  "bodyOverflow (closeMobileMenu st) = []" "modal (closeMobileMenu st) = modal st"
  by (simp_all add: closeMobileMenu_def)

lemma smoothScroll_frame:
  "bodyOverflow (smoothScrollToSection href st) = bodyOverflow st"
  "modal (smoothScrollToSection href st) = modal st"
  by (simp_all add: smoothScrollToSection_def split: option.splits query_result.splits)

text \<open>
  C10. \<open>closeMobileMenu\<close> always sets the body's \<^verbatim>\<open>overflow\<close> style to the empty string
  and leaves the timeline's modal as it is, whoever set the style.  So does every trigger
  that closes the menu: a click outside the navigation or the Escape key while the menu is
  open, a click on a navigation link, and a resize above 768 pixels while the menu is open.
  With a modal open, the scroll lock the modal set is released and the modal stays open.
\<close>

theorem closeMobileMenu_releases_scroll_lock:
  "bodyOverflow (closeMobileMenu st) = [] \<and> modal (closeMobileMenu st) = modal st
   \<and> (mobileMenuOpen st \<and> \<not> insideNav \<longrightarrow>
        bodyOverflow (onDocumentClick insideNav st) = []
        \<and> modal (onDocumentClick insideNav st) = modal st)
   \<and> (mobileMenuOpen st \<longrightarrow>
        bodyOverflow (onKeydown ''Escape'' st) = [] \<and> modal (onKeydown ''Escape'' st) = modal st)
   \<and> bodyOverflow (onNavLinksClick ''A'' href st) = []
   \<and> modal (onNavLinksClick ''A'' href st) = modal st
   \<and> (mobileMenuOpen st \<and> 768 < w \<longrightarrow>
        bodyOverflow (onResize w st) = [] \<and> modal (onResize w st) = modal st)"
  by (simp add: closeMobileMenu_overflow smoothScroll_frame onDocumentClick_def onKeydown_def
      onNavLinksClick_def onResize_def)

lemma menuAndModal_fields:
  "mobileMenuOpen menuAndModal" "bodyOverflow menuAndModal = ''hidden''"
  "modal menuAndModal = Some \<lparr>expId = ''exp-1'', expTitle = ''Developer''\<rparr>"
  by (simp_all add: menuAndModal_def showTimelineDetails_def createTimelineModal_def
      closeModal_def openMobileMenu_def startPage_def rawPage_def)

theorem closeMobileMenu_releases_scroll_lock_witness:
  "bodyOverflow menuAndModal = ''hidden''
   \<and> modal menuAndModal = Some \<lparr>expId = ''exp-1'', expTitle = ''Developer''\<rparr>
   \<and> bodyOverflow (onDocumentClick False menuAndModal) = []
   \<and> modal (onDocumentClick False menuAndModal) = Some \<lparr>expId = ''exp-1'', expTitle = ''Developer''\<rparr>
   \<and> bodyOverflow (onKeydown ''Escape'' menuAndModal) = []
   \<and> bodyOverflow (onNavLinksClick ''A'' (Some ''#about'') menuAndModal) = []
   \<and> bodyOverflow (onResize 1024 menuAndModal) = []"
  using closeMobileMenu_releases_scroll_lock [of menuAndModal False "Some ''#about''" 1024]
  by (simp add: menuAndModal_fields)

section \<open>Theorems about LazyImageLoader and loadData\<close>

lemma observeImage_tracked: "img \<in> images st \<Longrightarrow> observeImage img st = st"
  by (simp add: observeImage_def)

lemma images_loadImage: "images (loadImage img st) = images st"
  by (simp add: loadImage_def Let_def)

lemma images_observeImage: "img \<in> images (observeImage img st)"
  by (simp add: observeImage_def Let_def images_loadImage)

lemma observeCalls_loadImage: "observeCalls (loadImage img st) = observeCalls st"
  by (simp add: loadImage_def Let_def)

lemma observeCalls_observeImage:
  "observeCalls (observeImage img st) =
     (if img \<notin> images st \<and> observer st then observeCalls st @ [img] else observeCalls st)"
  by (simp add: observeImage_def Let_def observeCalls_loadImage)

text \<open>
  C7. \<open>addImage\<close> is idempotent: adding an image twice gives the state that adding it
  once gives, and adding an image that is already tracked changes nothing (no class, no
  placeholder, no call of the observer).  For an image that was not tracked, two calls
  engage \<^verbatim>\<open>observer.observe\<close> exactly once.
\<close>

theorem addImage_idempotent:
  "addImage img (addImage img st) = addImage img st
   \<and> (img \<in> images st \<longrightarrow> addImage img st = st)
   \<and> (img \<notin> images st \<and> observer st \<longrightarrow>
        count_list (observeCalls (addImage img (addImage img st))) img
          = Suc (count_list (observeCalls st) img))"
  by (simp add: addImage_def observeImage_tracked images_observeImage observeCalls_observeImage)

theorem addImage_idempotent_witness:
  "addImage 0 (addImage 0 emptyLoader) = addImage 0 emptyLoader
   \<and> 0 \<in> images (addImage 0 emptyLoader)
   \<and> observeCalls (addImage 0 (addImage 0 emptyLoader)) = [0]
   \<and> count_list (observeCalls (addImage 0 (addImage 0 emptyLoader))) 0 = 1"
  using addImage_idempotent [of 0 emptyLoader]
  by (simp add: emptyLoader_def newLazyImageLoader_def observeImages_def lazyImages_def
      addImage_def observeCalls_observeImage images_observeImage)

text \<open>
  C2, as the code has it.  \<open>loadData\<close> is all or nothing: when the three fetches succeed,
  each dataset holds what was fetched; when any of them fails, all three datasets are the
  empty fallback, also those that were fetched before the failure.
\<close>

theorem loadData_all_or_nothing:
  "(\<forall>p a t. projectsFile srv = Body p \<and> articlesFile srv = Body a \<and> timelineFile srv = Body t
       \<longrightarrow> dataProjects (loadData srv st) = Some p
         \<and> dataArticles (loadData srv st) = Some a
         \<and> dataTimeline (loadData srv st) = Some t)
 \<and> ((\<forall>p. projectsFile srv \<noteq> Body p) \<or> (\<forall>a. articlesFile srv \<noteq> Body a)
       \<or> (\<forall>t. timelineFile srv \<noteq> Body t)
       \<longrightarrow> dataProjects (loadData srv st) = Some (ProjectsJson [] [])
         \<and> dataArticles (loadData srv st) = Some (ArticlesJson [] [])
         \<and> dataTimeline (loadData srv st) = Some (TimelineJson [] []))"
  by (auto simp: loadData_def fallbackData_def Let_def split: fetched.splits)

theorem loadData_all_or_nothing_witness:
  "dataProjects (loadData allUp newPortfolioApp) = Some (ProjectsJson [''portfolio-site''] [''web''])
   \<and> dataArticles (loadData allUp newPortfolioApp) = Some (ArticlesJson [''hello-world''] [''news''])
   \<and> dataTimeline (loadData allUp newPortfolioApp) = Some (TimelineJson [''exp-1''] [''frontend''])
   \<and> dataProjects (loadData articlesDown newPortfolioApp) = Some (ProjectsJson [] [])
   \<and> dataArticles (loadData articlesDown newPortfolioApp) = Some (ArticlesJson [] [])
   \<and> dataTimeline (loadData articlesDown newPortfolioApp) = Some (TimelineJson [] [])"
  using loadData_all_or_nothing [of allUp newPortfolioApp]
    loadData_all_or_nothing [of articlesDown newPortfolioApp]
  by (simp add: allUp_def articlesDown_def)

text \<open>
  C2, as the claim states it, fails: projects.json is fetched, the fetch of articles.json
  is rejected, and \<^verbatim>\<open>this.data.projects\<close> ends as the empty fallback, not as the fetched
  projects (timeline.json is never requested).
\<close>

theorem loadData_articles_fail_counterexample:
  "projectsFile articlesDown = Body (ProjectsJson [''portfolio-site''] [''web''])
   \<and> articlesFile articlesDown = FetchRejected
   \<and> dataProjects (loadData articlesDown newPortfolioApp) = Some (ProjectsJson [] [])
   \<and> dataProjects (loadData articlesDown newPortfolioApp)
       \<noteq> Some (ProjectsJson [''portfolio-site''] [''web''])
   \<and> requested (loadData articlesDown newPortfolioApp)
       = [''./data/projects.json'', ''./data/articles.json'']"
  by (simp add: articlesDown_def newPortfolioApp_def loadData_def fallbackData_def)

end
